theory Spec2Isabelle
  imports Main "HOL-Library.Word" "HOL-Library.Multiset"
begin

section \<open>Data model of util.go\<close>

text \<open>
  The file util.go of ipfs-lite assembles option lists and hands them to the constructors
  of go-libp2p and go-libp2p-kad-dht. Objects of those libraries are opaque to util.go, so
  they are modelled as handles; the options the file builds are modelled as the constructor
  expressions the file writes, with the package prefix kept in the name where two packages
  use the same word. A Go value that may be nil is an \<open>option\<close>.
\<close>

datatype Context = Context nat
datatype PrivKey = PrivKey nat
datatype Host = Host nat
datatype Batching = Batching nat
datatype error = Error string

type_synonym Multiaddr = string
type_synonym byte = "8 word"
type_synonym PSK = "byte list"
type_synonym ModeOpt = int
type_synonym Duration = int

text \<open>The values of \<open>dht.ModeOpt\<close>, an integer type.\<close>

definition ModeAuto :: ModeOpt where
  "ModeAuto = 0"

definition ModeClient :: ModeOpt where
  "ModeClient = 1"

definition ModeServer :: ModeOpt where
  "ModeServer = 2"

definition ModeAutoServer :: ModeOpt where
  "ModeAutoServer = 3"

text \<open>\<open>time.Duration\<close> counts nanoseconds.\<close>

definition time_Second :: Duration where
  "time_Second = 1000000000"

definition time_Minute :: Duration where
  "time_Minute = 60 * time_Second"

record AddrInfo =
  ID :: string
  Addrs :: "Multiaddr list"

subsection \<open>Options of the dual DHT\<close>

text \<open>\<open>h.Peerstore()\<close> is the peerstore of the host \<open>h\<close>.\<close>

datatype KeyBook = Peerstore Host

datatype Validator =
    record_PublicKeyValidator
  | ipns_Validator KeyBook

datatype dht_Option =
    dht_NamespacedValidator string Validator
  | dht_Concurrency int
  | dht_Mode ModeOpt
  | dht_Datastore Batching

text \<open>
  The dual DHT has a public (WAN) and a private (LAN) instance. \<open>dualdht.DHTOption\<close> hands
  its DHT options to both instances; the package also has options for one instance only.
\<close>

datatype dualdht_Option =
    dualdht_DHTOption "dht_Option list"
  | dualdht_WanDHTOption "dht_Option list"
  | dualdht_LanDHTOption "dht_Option list"

datatype DHT = DHT nat

subsection \<open>Options of the host\<close>

datatype Writer = io_Discard | os_Stderr | OtherWriter string

text \<open>
  The fields of \<open>yamux.Config\<close> that SetupLibp2p assigns. The fields it leaves as
  \<open>DefaultConfig()\<close> returned them are the extension part of the record.
\<close>

record yamux_Config =
  MaxStreamWindowSize :: int
  AcceptBacklog :: int
  EnableKeepAlive :: bool
  KeepAliveInterval :: Duration
  MaxMessageSize :: int
  LogOutput :: Writer

datatype 'y Multiplexer =
    yamux_Transport "'y yamux_Config_scheme"
  | OtherMultiplexer string

datatype TransportC =
    tcp_NewTCPTransport
  | websocket_New
  | OtherTransport string

datatype connmgr_Option = connmgr_WithGracePeriod Duration

text \<open>A connection manager is described by the arguments of its constructor call.\<close>

datatype ConnManager = connmgr_NewConnManager int int "connmgr_Option list"

datatype 'y libp2p_Option =
    Identity PrivKey
  | ListenAddrs "Multiaddr list"
  | PrivateNetwork "PSK option"
  | DefaultTransports
  | NoTransports
  | Transport TransportC
  | ChainOptions "'y libp2p_Option list"
  | Routing "Host \<Rightarrow> DHT option \<times> error option"
  | Muxer string "'y Multiplexer"
  | NATPortMap
  | ConnectionManager ConnManager
  | EnableAutoRelayWithPeerSource "int \<Rightarrow> AddrInfo list option"
  | EnableNATService
  | OtherOption string

subsection \<open>The libraries util.go calls\<close>

text \<open>
  What \<open>libp2p.New\<close> did with the options it was given: the hosts on which it invoked the
  routing callback that SetupLibp2p installed, in order, and the pair it returned.
\<close>

record New_outcome =
  routing_calls :: "Host list"
  new_host :: "Host option"
  new_err :: "error option"

text \<open>
  The library values and functions that util.go uses and that are not part of the
  repository, and the largest capacity with which the Go runtime makes a channel of
  \<open>peer.AddrInfo\<close>. They are parameters of the model: every theorem below that
  quantifies over \<open>L\<close> holds for every behaviour of the libraries.
\<close>

record 'y extern =
  max_chan_cap :: int
  dht_DefaultBootstrapPeers :: "Multiaddr list"
  peer_AddrInfosFromP2pAddrs :: "Multiaddr list \<Rightarrow> AddrInfo list \<times> error option"
  yamux_DefaultConfig :: "'y yamux_Config_scheme"
  dualdht_New :: "Context \<Rightarrow> Host \<Rightarrow> dualdht_Option list \<Rightarrow> DHT option \<times> error option"
  libp2p_New :: "'y libp2p_Option list \<Rightarrow> New_outcome"

section \<open>The functions of util.go\<close>

text \<open>\<open>peers, _ := peer.AddrInfosFromP2pAddrs(dht.DefaultBootstrapPeers...); return peers\<close>\<close>

definition DefaultBootstrapPeers :: "'y extern \<Rightarrow> AddrInfo list" where
  "DefaultBootstrapPeers L =
     (case peer_AddrInfosFromP2pAddrs L (dht_DefaultBootstrapPeers L) of
        (peers, _) \<Rightarrow> peers)"

text \<open>\<open>var connMgr, _ = connmgr.NewConnManager(100, 600, connmgr.WithGracePeriod(time.Minute))\<close>\<close>

definition connMgr :: ConnManager where
  "connMgr = connmgr_NewConnManager 100 600 [connmgr_WithGracePeriod time_Minute]"

text \<open>
  The peer source of the auto-relay option: a channel of capacity \<open>num\<close> that holds the
  first \<open>num\<close> default bootstrap peers and is closed. \<open>make\<close> panics on a negative
  capacity and on one that is too large for the runtime, which is the result \<open>None\<close>.
\<close>

definition peerSource :: "'y extern \<Rightarrow> int \<Rightarrow> AddrInfo list option" where
  "peerSource L num =
     (if num < 0 \<or> max_chan_cap L < num then None
      else Some (take (nat num) (DefaultBootstrapPeers L)))"

definition Libp2pOptionsExtra :: "'y extern \<Rightarrow> 'y libp2p_Option list" where
  "Libp2pOptionsExtra L =
     [NATPortMap,
      ConnectionManager connMgr,
      EnableAutoRelayWithPeerSource (peerSource L),
      EnableNATService]"

text \<open>The option list of newDHT; the datastore option is appended when \<open>ds != nil\<close>.\<close>

definition dhtOpts :: "Host \<Rightarrow> Batching option \<Rightarrow> ModeOpt \<Rightarrow> dualdht_Option list" where
  "dhtOpts h ds dhtMode =
     [dualdht_DHTOption [dht_NamespacedValidator ''pk'' record_PublicKeyValidator],
      dualdht_DHTOption [dht_NamespacedValidator ''ipns'' (ipns_Validator (Peerstore h))],
      dualdht_DHTOption [dht_Concurrency 10],
      dualdht_DHTOption [dht_Mode dhtMode]]
     @ (case ds of None \<Rightarrow> [] | Some d \<Rightarrow> [dualdht_DHTOption [dht_Datastore d]])"

definition newDHT ::
  "'y extern \<Rightarrow> Context \<Rightarrow> Host \<Rightarrow> Batching option \<Rightarrow> ModeOpt \<Rightarrow> DHT option \<times> error option" where
  "newDHT L ctx h ds dhtMode = dualdht_New L ctx h (dhtOpts h ds dhtMode)"

text \<open>The variable \<open>transports\<close> of SetupLibp2p.\<close>

definition transports :: "PSK option \<Rightarrow> 'y libp2p_Option" where
  "transports secret =
     (if secret \<noteq> None
      then ChainOptions [NoTransports, Transport tcp_NewTCPTransport, Transport websocket_New]
      else DefaultTransports)"

text \<open>The yamux configuration: the library's default with six fields assigned.\<close>

definition yamuxConfig :: "'y extern \<Rightarrow> 'y yamux_Config_scheme" where
  "yamuxConfig L =
     (yamux_DefaultConfig L)
       \<lparr>MaxStreamWindowSize := 1024 * 1024 * 4,
        AcceptBacklog := 128,
        EnableKeepAlive := True,
        KeepAliveInterval := 15 * time_Second,
        MaxMessageSize := 16 * 1024 * 1024,
        LogOutput := io_Discard\<rparr>"

text \<open>The mandatory options, in the order of the slice literal.\<close>

definition mandatoryOpts ::
  "'y extern \<Rightarrow> Context \<Rightarrow> PrivKey \<Rightarrow> PSK option \<Rightarrow> Multiaddr list \<Rightarrow> Batching option \<Rightarrow> ModeOpt
     \<Rightarrow> 'y libp2p_Option list" where
  "mandatoryOpts L ctx hostKey secret listenAddrs ds dhtMode =
     [Identity hostKey,
      ListenAddrs listenAddrs,
      PrivateNetwork secret,
      transports secret,
      Routing (\<lambda>h. newDHT L ctx h ds dhtMode)]"

text \<open>The slice \<open>finalOpts\<close> when it is passed to \<open>libp2p.New\<close>.\<close>

definition finalOpts ::
  "'y extern \<Rightarrow> Context \<Rightarrow> PrivKey \<Rightarrow> PSK option \<Rightarrow> Multiaddr list \<Rightarrow> Batching option \<Rightarrow> ModeOpt
     \<Rightarrow> 'y libp2p_Option list \<Rightarrow> 'y libp2p_Option list" where
  "finalOpts L ctx hostKey secret listenAddrs ds dhtMode opts =
     (mandatoryOpts L ctx hostKey secret listenAddrs ds dhtMode @ opts)
     @ [Muxer ''/yamux/1.0.0'' (yamux_Transport (yamuxConfig L))]"

text \<open>
  The variables \<open>ddht\<close> and \<open>err\<close> that the routing callback assigns, after the callback
  has run on each host of \<open>calls\<close>; both start as nil.
\<close>

definition captured ::
  "'y extern \<Rightarrow> Context \<Rightarrow> Batching option \<Rightarrow> ModeOpt \<Rightarrow> Host list \<Rightarrow> DHT option \<times> error option" where
  "captured L ctx ds dhtMode calls =
     foldl (\<lambda>cell h. newDHT L ctx h ds dhtMode) (None, None) calls"

text \<open>SetupLibp2p returns the triple (host, dual DHT, error).\<close>

definition SetupLibp2p ::
  "'y extern \<Rightarrow> Context \<Rightarrow> PrivKey \<Rightarrow> PSK option \<Rightarrow> Multiaddr list \<Rightarrow> Batching option \<Rightarrow> ModeOpt
     \<Rightarrow> 'y libp2p_Option list \<Rightarrow> Host option \<times> DHT option \<times> error option" where
  "SetupLibp2p L ctx hostKey secret listenAddrs ds dhtMode opts =
     (let out = libp2p_New L (finalOpts L ctx hostKey secret listenAddrs ds dhtMode opts);
          ddht = fst (captured L ctx ds dhtMode (routing_calls out))
      in case new_err out of
           Some e \<Rightarrow> (None, None, Some e)
         | None \<Rightarrow> (new_host out, ddht, None))"

section \<open>Reading an option list\<close>

text \<open>
  \<open>libp2p.ChainOptions\<close> groups options into one; \<open>applied\<close> lists the single options
  an option list stands for, in order.
\<close>

fun flatten :: "'y libp2p_Option \<Rightarrow> 'y libp2p_Option list" where
  "flatten (ChainOptions os) = concat (map flatten os)"
| "flatten opt = [opt]"

definition applied :: "'y libp2p_Option list \<Rightarrow> 'y libp2p_Option list" where
  "applied opts = concat (map flatten opts)"

fun is_transport_option :: "'y libp2p_Option \<Rightarrow> bool" where
  "is_transport_option DefaultTransports = True"
| "is_transport_option NoTransports = True"
| "is_transport_option (Transport t) = True"
| "is_transport_option opt = False"

fun is_Muxer :: "'y libp2p_Option \<Rightarrow> bool" where
  "is_Muxer (Muxer name m) = True"
| "is_Muxer opt = False"

fun is_ConnectionManager :: "'y libp2p_Option \<Rightarrow> bool" where
  "is_ConnectionManager (ConnectionManager cm) = True"
| "is_ConnectionManager opt = False"

fun is_validator :: "dht_Option \<Rightarrow> bool" where
  "is_validator (dht_NamespacedValidator ns v) = True"
| "is_validator opt = False"

fun is_concurrency :: "dht_Option \<Rightarrow> bool" where
  "is_concurrency (dht_Concurrency n) = True"
| "is_concurrency opt = False"

fun is_mode :: "dht_Option \<Rightarrow> bool" where
  "is_mode (dht_Mode m) = True"
| "is_mode opt = False"

text \<open>
  The mode a DHT instance is built with: \<open>dht.New\<close> starts from the default
  \<open>ModeAuto\<close> and applies its options in order, and each \<open>dht.Mode\<close> option
  overwrites the mode.
\<close>

fun configured_mode_from :: "ModeOpt \<Rightarrow> dht_Option list \<Rightarrow> ModeOpt" where
  "configured_mode_from cur [] = cur"
| "configured_mode_from cur (dht_Mode m # rest) = configured_mode_from m rest"
| "configured_mode_from cur (opt # rest) = configured_mode_from cur rest"

definition configured_mode :: "dht_Option list \<Rightarrow> ModeOpt" where
  "configured_mode os = configured_mode_from ModeAuto os"

text \<open>
  How \<open>dualdht.New\<close> distributes its options. The public (WAN) instance is built with
  the options given for both instances and those given for the WAN instance. The private
  (LAN) instance is built after it, with the options given for both instances and those
  given for the LAN instance, to which \<open>dualdht.New\<close> appends \<open>dht.Mode(dht.ModeServer)\<close>
  unless the mode of the WAN instance is \<open>ModeClient\<close>.
\<close>

fun wan_options :: "dualdht_Option list \<Rightarrow> dht_Option list" where
  "wan_options [] = []"
| "wan_options (dualdht_DHTOption os # rest) = os @ wan_options rest"
| "wan_options (dualdht_WanDHTOption os # rest) = os @ wan_options rest"
| "wan_options (dualdht_LanDHTOption os # rest) = wan_options rest"

fun lan_given :: "dualdht_Option list \<Rightarrow> dht_Option list" where
  "lan_given [] = []"
| "lan_given (dualdht_DHTOption os # rest) = os @ lan_given rest"
| "lan_given (dualdht_WanDHTOption os # rest) = lan_given rest"
| "lan_given (dualdht_LanDHTOption os # rest) = os @ lan_given rest"

definition lan_options :: "dualdht_Option list \<Rightarrow> dht_Option list" where
  "lan_options opts =
     lan_given opts @
     (if configured_mode (wan_options opts) \<noteq> ModeClient then [dht_Mode ModeServer] else [])"

text \<open>The datastores an instance is given by its options.\<close>

fun datastores :: "dht_Option list \<Rightarrow> Batching list" where
  "datastores [] = []"
| "datastores (dht_Datastore d # rest) = d # datastores rest"
| "datastores (opt # rest) = datastores rest"

text \<open>
  The store a DHT instance works on. \<open>dht.New\<close> starts from the package defaults, which
  create a new in-memory map datastore (\<open>dssync.MutexWrap(datastore.NewMapDatastore())\<close>),
  and then applies its options in order; a \<open>dht.Datastore\<close> option replaces the store.
  The state is the number of map datastores created so far, which numbers the next one.
\<close>

datatype Store = MapDatastore nat | Supplied Batching

definition dht_New_store :: "dht_Option list \<Rightarrow> nat \<Rightarrow> Store \<times> nat" where
  "dht_New_store os n =
     ((case datastores os of [] \<Rightarrow> MapDatastore n | d # ds \<Rightarrow> Supplied (last (d # ds))),
      Suc n)"

text \<open>The stores of the WAN and of the LAN instance that \<open>dualdht.New\<close> builds.\<close>

definition dualdht_New_stores :: "dualdht_Option list \<Rightarrow> nat \<Rightarrow> (Store \<times> Store) \<times> nat" where
  "dualdht_New_stores opts n =
     (case dht_New_store (wan_options opts) n of
        (w, n1) \<Rightarrow>
          (case dht_New_store (lan_options opts) n1 of
             (l, n2) \<Rightarrow> ((w, l), n2)))"

section \<open>The address parser\<close>

text \<open>
  \<open>peer.AddrInfosFromP2pAddrs\<close> of go-libp2p. It splits each address into its transport
  part and its peer ID (\<open>peer.SplitAddr\<close>, here \<open>split\<close>), fails on an address without
  peer ID, and collects the transport parts by peer ID in a Go map; an address that is a
  peer ID only adds its key with no address. It then ranges over the map and returns one
  record for each key. Go fixes no order for ranging over a map and starts each range at
  a place of its choosing: \<open>iter\<close> is the order in which one call meets the entries.
\<close>

fun add_addr ::
  "string \<Rightarrow> Multiaddr option \<Rightarrow> (string \<times> Multiaddr list) list \<Rightarrow> (string \<times> Multiaddr list) list" where
  "add_addr pid t [] = [(pid, case t of None \<Rightarrow> [] | Some a \<Rightarrow> [a])]"
| "add_addr pid t ((k, as) # m) =
     (if k = pid then (k, case t of None \<Rightarrow> as | Some a \<Rightarrow> as @ [a]) # m
      else (k, as) # add_addr pid t m)"

fun group_addrs ::
  "(Multiaddr \<Rightarrow> Multiaddr option \<times> string) \<Rightarrow> Multiaddr list \<Rightarrow> (string \<times> Multiaddr list) list
     \<Rightarrow> (string \<times> Multiaddr list) list option" where
  "group_addrs split [] m = Some m"
| "group_addrs split (maddr # rest) m =
     (case split maddr of
        (t, pid) \<Rightarrow>
          if pid = [] then None else group_addrs split rest (add_addr pid t m))"

definition AddrInfosFromP2pAddrs ::
  "(Multiaddr \<Rightarrow> Multiaddr option \<times> string)
     \<Rightarrow> ((string \<times> Multiaddr list) list \<Rightarrow> (string \<times> Multiaddr list) list)
     \<Rightarrow> Multiaddr list \<Rightarrow> AddrInfo list \<times> error option" where
  "AddrInfosFromP2pAddrs split iter maddrs =
     (case group_addrs split maddrs [] of
        None \<Rightarrow> ([], Some (Error ''invalid p2p multiaddr''))
      | Some m \<Rightarrow> (map (\<lambda>(pid, as). \<lparr>ID = pid, Addrs = as\<rparr>) (iter m), None))"

text \<open>A call of DefaultBootstrapPeers in which the parser ranges over its map as \<open>iter\<close>.\<close>

definition with_iteration ::
  "'y extern \<Rightarrow> (Multiaddr \<Rightarrow> Multiaddr option \<times> string)
     \<Rightarrow> ((string \<times> Multiaddr list) list \<Rightarrow> (string \<times> Multiaddr list) list) \<Rightarrow> 'y extern" where
  "with_iteration L split iter =
     L\<lparr>peer_AddrInfosFromP2pAddrs := AddrInfosFromP2pAddrs split iter\<rparr>"

section \<open>An environment for concrete runs\<close>

text \<open>
  Libraries for running the model on concrete arguments: the address parser rejects its
  input and returns no peers with an error; the dual DHT constructor returns a DHT; host
  construction does not inspect its options, invokes the routing callback once, on the
  host it returns, and reports no error.
\<close>

definition sample_extern :: "unit extern" where
  "sample_extern =
     \<lparr>max_chan_cap = 1000000,
      dht_DefaultBootstrapPeers = [''/ip4/104.131.131.82/tcp/4001''],
      peer_AddrInfosFromP2pAddrs = (\<lambda>maddrs. ([], Some (Error ''invalid p2p multiaddr''))),
      yamux_DefaultConfig =
        \<lparr>MaxStreamWindowSize = 16 * 1024 * 1024, AcceptBacklog = 256,
         EnableKeepAlive = True, KeepAliveInterval = 30 * time_Second,
         MaxMessageSize = 64 * 1024, LogOutput = os_Stderr\<rparr>,
      dualdht_New = (\<lambda>ctx h os. (Some (DHT 1), None)),
      libp2p_New =
        (\<lambda>opts. \<lparr>routing_calls = [Host 1], new_host = Some (Host 1), new_err = None\<rparr>)\<rparr>"

definition psk31 :: PSK where
  "psk31 = replicate 31 0"

definition psk32 :: PSK where
  "psk32 = replicate 32 0"

text \<open>
  Two bootstrap addresses of different peers, split as \<open>peer.SplitAddr\<close> splits them.
\<close>

definition two_peers :: "Multiaddr list" where
  "two_peers =
     [''/dnsaddr/bootstrap.libp2p.io/p2p/QmNnooDu7bfjPFoTZYxMNLWUQJyrVwtbZg5gBMjTezGAJN'',
      ''/ip4/104.131.131.82/tcp/4001/p2p/QmaCpDMGvV2BGHeYERUEnRQAwe3N8SzbUtfsmvsqQLuvuJ'']"

definition two_peers_split :: "Multiaddr \<Rightarrow> Multiaddr option \<times> string" where
  "two_peers_split maddr =
     (if maddr =
         ''/dnsaddr/bootstrap.libp2p.io/p2p/QmNnooDu7bfjPFoTZYxMNLWUQJyrVwtbZg5gBMjTezGAJN''
      then (Some ''/dnsaddr/bootstrap.libp2p.io'',
            ''QmNnooDu7bfjPFoTZYxMNLWUQJyrVwtbZg5gBMjTezGAJN'')
      else if maddr =
         ''/ip4/104.131.131.82/tcp/4001/p2p/QmaCpDMGvV2BGHeYERUEnRQAwe3N8SzbUtfsmvsqQLuvuJ''
      then (Some ''/ip4/104.131.131.82/tcp/4001'',
            ''QmaCpDMGvV2BGHeYERUEnRQAwe3N8SzbUtfsmvsqQLuvuJ'')
      else (Some maddr, []))"

definition two_peers_extern :: "unit extern" where
  "two_peers_extern = sample_extern\<lparr>dht_DefaultBootstrapPeers := two_peers\<rparr>"

section \<open>Properties of option lists\<close>

lemma applied_Nil: "applied [] = []"
  by (simp add: applied_def)

lemma applied_Cons: "applied (x # xs) = flatten x @ applied xs"
  by (simp add: applied_def)

lemma applied_append: "applied (xs @ ys) = applied xs @ applied ys"
  by (simp add: applied_def)

text \<open>
  The caller's options reach \<open>libp2p.New\<close> unchanged and in their order, after the five
  mandatory options and before the stream multiplexer.
\<close>

lemma finalOpts_caller_options:
  "take (length opts) (drop 5 (finalOpts L ctx k secret la ds m opts)) = opts"
  by (simp add: finalOpts_def mandatoryOpts_def)

lemma finalOpts_length:
  "length (finalOpts L ctx k secret la ds m opts) = length opts + 6"
  by (simp add: finalOpts_def mandatoryOpts_def)

section \<open>The return value of SetupLibp2p\<close>

lemma captured_Nil: "captured L ctx ds m [] = (None, None)"
  by (simp add: captured_def)

lemma captured_last:
  "calls \<noteq> [] \<Longrightarrow> captured L ctx ds m calls = newDHT L ctx (last calls) ds m"
  by (induction calls rule: rev_induct) (simp_all add: captured_def)

lemma SetupLibp2p_result:
  "SetupLibp2p L ctx k secret la ds m opts =
     (case new_err (libp2p_New L (finalOpts L ctx k secret la ds m opts)) of
        Some e \<Rightarrow> (None, None, Some e)
      | None \<Rightarrow>
          (new_host (libp2p_New L (finalOpts L ctx k secret la ds m opts)),
           fst (captured L ctx ds m
                  (routing_calls (libp2p_New L (finalOpts L ctx k secret la ds m opts)))),
           None))"
  by (simp add: SetupLibp2p_def Let_def)

section \<open>Transport selection\<close>

text \<open>
  Claim C1 as stated says that the transport options passed to host construction are
  exactly TCP and WebSocket with all others disabled when the secret is non-nil, and the
  full default set when it is nil. The caller's extra options are passed too: with a
  secret and the extra option of a further transport, that transport follows TCP and
  WebSocket; without a secret and with the extra options \<open>NoTransports\<close> and TCP, the
  default set is followed by its removal.
\<close>

theorem SetupLibp2p_caller_transports:
  "filter is_transport_option (applied
     (finalOpts sample_extern (Context 0) (PrivKey 0) (Some psk32) [] None 0
        [Transport (OtherTransport ''quic'')])) =
     [NoTransports, Transport tcp_NewTCPTransport, Transport websocket_New,
      Transport (OtherTransport ''quic'')] \<and>
   filter is_transport_option (applied
     (finalOpts sample_extern (Context 0) (PrivKey 0) None [] None 0
        [NoTransports, Transport tcp_NewTCPTransport])) =
     [DefaultTransports, NoTransports, Transport tcp_NewTCPTransport]"
  by (simp add: finalOpts_def mandatoryOpts_def transports_def applied_def)

text \<open>
  Claim C1, amended. SetupLibp2p returns what host construction makes of the list
  \<open>finalOpts\<close>. The fourth option of that list is the transport option SetupLibp2p
  selects: with a non-nil secret it stands for \<open>NoTransports\<close> followed by the TCP and
  the WebSocket transport, and for nothing else; with a nil secret it is
  \<open>DefaultTransports\<close>. The transport options passed to host construction are those of
  the selected option followed by those among the caller's extra options, so they are
  the selected ones alone exactly when the extra options hold none.
\<close>

theorem SetupLibp2p_transports:
  "SetupLibp2p L ctx k secret la ds m opts =
     (let out = libp2p_New L (finalOpts L ctx k secret la ds m opts)
      in case new_err out of
           Some e \<Rightarrow> (None, None, Some e)
         | None \<Rightarrow>
             (new_host out, fst (captured L ctx ds m (routing_calls out)), None)) \<and>
   finalOpts L ctx k secret la ds m opts ! 3 = transports secret \<and>
   flatten (transports secret :: 'y libp2p_Option) =
     (case secret of
        None \<Rightarrow> [DefaultTransports]
      | Some psk \<Rightarrow> [NoTransports, Transport tcp_NewTCPTransport, Transport websocket_New]) \<and>
   filter is_transport_option (applied (finalOpts L ctx k secret la ds m opts)) =
     flatten (transports secret) @ filter is_transport_option (applied opts)"
proof -
  have result: "SetupLibp2p L ctx k secret la ds m opts =
     (let out = libp2p_New L (finalOpts L ctx k secret la ds m opts)
      in case new_err out of
           Some e \<Rightarrow> (None, None, Some e)
         | None \<Rightarrow>
             (new_host out, fst (captured L ctx ds m (routing_calls out)), None))"
    by (simp add: SetupLibp2p_def Let_def)
  have selected: "finalOpts L ctx k secret la ds m opts ! 3 = transports secret"
    by (simp add: finalOpts_def mandatoryOpts_def)
  have content: "flatten (transports secret :: 'y libp2p_Option) =
     (case secret of
        None \<Rightarrow> [DefaultTransports]
      | Some psk \<Rightarrow> [NoTransports, Transport tcp_NewTCPTransport, Transport websocket_New])"
    by (simp add: transports_def split: option.splits)
  have passed: "filter is_transport_option (applied (finalOpts L ctx k secret la ds m opts)) =
     flatten (transports secret) @ filter is_transport_option (applied opts)"
    by (simp add: finalOpts_def mandatoryOpts_def transports_def applied_append applied_Cons
        applied_Nil)
  from result selected content passed show ?thesis by blast
qed

section \<open>The private-network secret\<close>

text \<open>
  Claim C3 as stated says that a non-nil secret whose length is not 32 makes the assembly
  fail. SetupLibp2p has no test of the length: with libraries that accept the options, a
  secret of 31 bytes yields a host, a DHT and no error.
\<close>

theorem SetupLibp2p_short_secret_accepted:
  "length psk31 \<noteq> 32 \<and>
   SetupLibp2p sample_extern (Context 0) (PrivKey 0) (Some psk31) [] None 0 [] =
     (Some (Host 1), Some (DHT 1), None)"
  by (simp add: psk31_def SetupLibp2p_def sample_extern_def captured_def newDHT_def)

text \<open>
  Claim C3, amended. SetupLibp2p does not examine the secret beyond the nil test: it puts
  the secret unchanged into the \<open>PrivateNetwork\<close> option, third of the options passed to
  host construction; the error it returns is the error host construction returned; and two
  non-nil secrets, of whatever lengths, give option lists that differ in that third option
  only.
\<close>

theorem SetupLibp2p_secret_forwarded:
  "finalOpts L ctx k secret la ds m opts ! 2 = PrivateNetwork secret \<and>
   snd (snd (SetupLibp2p L ctx k secret la ds m opts)) =
     new_err (libp2p_New L (finalOpts L ctx k secret la ds m opts)) \<and>
   finalOpts L ctx k (Some s) la ds m opts =
     (finalOpts L ctx k (Some s') la ds m opts)[2 := PrivateNetwork (Some s)]"
  by (simp add: finalOpts_def mandatoryOpts_def transports_def SetupLibp2p_def Let_def
      split: option.splits)

section \<open>The dual DHT\<close>

lemma wan_options_dhtOpts:
  "wan_options (dhtOpts h ds m) =
     [dht_NamespacedValidator ''pk'' record_PublicKeyValidator,
      dht_NamespacedValidator ''ipns'' (ipns_Validator (Peerstore h)),
      dht_Concurrency 10,
      dht_Mode m]
     @ (case ds of None \<Rightarrow> [] | Some d \<Rightarrow> [dht_Datastore d])"
  by (simp add: dhtOpts_def split: option.splits)

lemma lan_given_dhtOpts:
  "lan_given (dhtOpts h ds m) = wan_options (dhtOpts h ds m)"
  by (simp add: dhtOpts_def split: option.splits)

lemma configured_mode_dhtOpts:
  "configured_mode (wan_options (dhtOpts h ds m)) = m"
  by (simp add: wan_options_dhtOpts configured_mode_def split: option.splits)

lemma lan_options_dhtOpts:
  "lan_options (dhtOpts h ds m) =
     wan_options (dhtOpts h ds m) @ (if m = ModeClient then [] else [dht_Mode ModeServer])"
  by (simp add: lan_options_def lan_given_dhtOpts configured_mode_dhtOpts)

lemma datastores_append: "datastores (xs @ ys) = datastores xs @ datastores ys"
  by (induction xs rule: datastores.induct) simp_all

lemma datastores_wan_dhtOpts:
  "datastores (wan_options (dhtOpts h ds m)) = (case ds of None \<Rightarrow> [] | Some d \<Rightarrow> [d])"
  by (simp add: wan_options_dhtOpts split: option.splits)

lemma datastores_lan_dhtOpts:
  "datastores (lan_options (dhtOpts h ds m)) = (case ds of None \<Rightarrow> [] | Some d \<Rightarrow> [d])"
  by (simp add: lan_options_dhtOpts datastores_append datastores_wan_dhtOpts)

lemma dualdht_New_stores_dhtOpts:
  "dualdht_New_stores (dhtOpts h ds m) n =
     ((case ds of
         None \<Rightarrow> (MapDatastore n, MapDatastore (Suc n))
       | Some d \<Rightarrow> (Supplied d, Supplied d)),
      n + 2)"
  by (simp add: dualdht_New_stores_def dht_New_store_def datastores_wan_dhtOpts
      datastores_lan_dhtOpts split: option.splits)

text \<open>
  Claim C5. The routing callback that SetupLibp2p installs, and newDHT, build the dual DHT
  of a host from the options of \<open>dhtOpts\<close>, and the DHT that SetupLibp2p returns is the
  one the callback built last. With a nil datastore the public and the private instance
  each work on an in-memory map datastore created for that instance alone, and the four
  stores of two such assemblies, the second made at any later time, are pairwise
  different. With a datastore \<open>d\<close> both instances work on \<open>d\<close>.
\<close>

theorem newDHT_datastore_binding:
  "finalOpts L ctx k secret la ds m opts ! 4 =
     Routing (\<lambda>h. dualdht_New L ctx h (dhtOpts h ds m)) \<and>
   SetupLibp2p L ctx k secret la ds m opts =
     (let out = libp2p_New L (finalOpts L ctx k secret la ds m opts)
      in case new_err out of
           Some e \<Rightarrow> (None, None, Some e)
         | None \<Rightarrow>
             (new_host out,
              fst (foldl (\<lambda>cell h. dualdht_New L ctx h (dhtOpts h ds m)) (None, None)
                     (routing_calls out)),
              None)) \<and>
   newDHT L ctx h ds m = dualdht_New L ctx h (dhtOpts h ds m) \<and>
   dualdht_New_stores (dhtOpts h ds m) n =
     ((case ds of
         None \<Rightarrow> (MapDatastore n, MapDatastore (Suc n))
       | Some d \<Rightarrow> (Supplied d, Supplied d)),
      n + 2) \<and>
   (case dualdht_New_stores (dhtOpts h None m) n of
      ((w1, l1), n1) \<Rightarrow>
        (case dualdht_New_stores (dhtOpts h' None m') (n1 + j) of
           ((w2, l2), n2) \<Rightarrow> distinct [w1, l1, w2, l2]))"
proof -
  have callback: "finalOpts L ctx k secret la ds m opts ! 4 =
     Routing (\<lambda>h. dualdht_New L ctx h (dhtOpts h ds m))"
    by (simp add: finalOpts_def mandatoryOpts_def newDHT_def)
  have result: "SetupLibp2p L ctx k secret la ds m opts =
     (let out = libp2p_New L (finalOpts L ctx k secret la ds m opts)
      in case new_err out of
           Some e \<Rightarrow> (None, None, Some e)
         | None \<Rightarrow>
             (new_host out,
              fst (foldl (\<lambda>cell h. dualdht_New L ctx h (dhtOpts h ds m)) (None, None)
                     (routing_calls out)),
              None))"
    by (simp add: SetupLibp2p_def captured_def newDHT_def Let_def)
  have direct: "newDHT L ctx h ds m = dualdht_New L ctx h (dhtOpts h ds m)"
    by (simp add: newDHT_def)
  have stores: "dualdht_New_stores (dhtOpts h ds m) n =
     ((case ds of
         None \<Rightarrow> (MapDatastore n, MapDatastore (Suc n))
       | Some d \<Rightarrow> (Supplied d, Supplied d)),
      n + 2)"
    by (rule dualdht_New_stores_dhtOpts)
  have isolated: "(case dualdht_New_stores (dhtOpts h None m) n of
      ((w1, l1), n1) \<Rightarrow>
        (case dualdht_New_stores (dhtOpts h' None m') (n1 + j) of
           ((w2, l2), n2) \<Rightarrow> distinct [w1, l1, w2, l2]))"
    by (simp add: dualdht_New_stores_dhtOpts)
  from callback result direct stores isolated show ?thesis by blast
qed

text \<open>
  Claim C6 as stated says that the caller's routing mode is applied to both instances.
  With the mode \<open>ModeAuto\<close> the public instance is built with that mode, but the private
  instance is built with the mode options \<open>ModeAuto\<close> and then \<open>ModeServer\<close>, so its
  mode is \<open>ModeServer\<close>.
\<close>

theorem newDHT_lan_mode_differs:
  "filter is_mode (wan_options (dhtOpts (Host 1) None ModeAuto)) = [dht_Mode ModeAuto] \<and>
   filter is_mode (lan_options (dhtOpts (Host 1) None ModeAuto)) =
     [dht_Mode ModeAuto, dht_Mode ModeServer] \<and>
   configured_mode (lan_options (dhtOpts (Host 1) None ModeAuto)) = ModeServer \<and>
   ModeServer \<noteq> ModeAuto"
  by (simp add: lan_options_dhtOpts wan_options_dhtOpts configured_mode_def ModeAuto_def
      ModeServer_def ModeClient_def)

text \<open>
  Claim C6, amended. For every call of newDHT, the public and the private instance are
  each built with exactly two namespaced validators, the public-key validator under "pk"
  and the IPNS validator under "ipns" whose key book is the peerstore of the host, and
  with exactly one concurrency option, of value 10. The caller's routing mode is passed
  for both instances: it is the only mode option and the mode of the public instance;
  the private instance is built with it and, unless it is \<open>ModeClient\<close>, with
  \<open>ModeServer\<close> after it, so that the mode of the private instance is \<open>ModeClient\<close>
  when the caller's mode is \<open>ModeClient\<close> and \<open>ModeServer\<close> otherwise.
\<close>

theorem newDHT_options:
  "newDHT L ctx h ds m = dualdht_New L ctx h (dhtOpts h ds m) \<and>
   filter is_validator (wan_options (dhtOpts h ds m)) =
     [dht_NamespacedValidator ''pk'' record_PublicKeyValidator,
      dht_NamespacedValidator ''ipns'' (ipns_Validator (Peerstore h))] \<and>
   filter is_validator (lan_options (dhtOpts h ds m)) =
     [dht_NamespacedValidator ''pk'' record_PublicKeyValidator,
      dht_NamespacedValidator ''ipns'' (ipns_Validator (Peerstore h))] \<and>
   filter is_concurrency (wan_options (dhtOpts h ds m)) = [dht_Concurrency 10] \<and>
   filter is_concurrency (lan_options (dhtOpts h ds m)) = [dht_Concurrency 10] \<and>
   filter is_mode (wan_options (dhtOpts h ds m)) = [dht_Mode m] \<and>
   filter is_mode (lan_options (dhtOpts h ds m)) =
     dht_Mode m # (if m = ModeClient then [] else [dht_Mode ModeServer]) \<and>
   configured_mode (wan_options (dhtOpts h ds m)) = m \<and>
   configured_mode (lan_options (dhtOpts h ds m)) =
     (if m = ModeClient then ModeClient else ModeServer)"
proof -
  have direct: "newDHT L ctx h ds m = dualdht_New L ctx h (dhtOpts h ds m)"
    by (simp add: newDHT_def)
  have wan: "filter is_validator (wan_options (dhtOpts h ds m)) =
       [dht_NamespacedValidator ''pk'' record_PublicKeyValidator,
        dht_NamespacedValidator ''ipns'' (ipns_Validator (Peerstore h))]"
    "filter is_concurrency (wan_options (dhtOpts h ds m)) = [dht_Concurrency 10]"
    "filter is_mode (wan_options (dhtOpts h ds m)) = [dht_Mode m]"
    by (simp_all add: wan_options_dhtOpts split: option.splits)
  have lan: "filter is_validator (lan_options (dhtOpts h ds m)) =
       [dht_NamespacedValidator ''pk'' record_PublicKeyValidator,
        dht_NamespacedValidator ''ipns'' (ipns_Validator (Peerstore h))]"
    "filter is_concurrency (lan_options (dhtOpts h ds m)) = [dht_Concurrency 10]"
    "filter is_mode (lan_options (dhtOpts h ds m)) =
       dht_Mode m # (if m = ModeClient then [] else [dht_Mode ModeServer])"
    by (simp_all add: lan_options_dhtOpts wan_options_dhtOpts split: option.splits)
  have wan_mode: "configured_mode (wan_options (dhtOpts h ds m)) = m"
    by (rule configured_mode_dhtOpts)
  have lan_mode: "configured_mode (lan_options (dhtOpts h ds m)) =
     (if m = ModeClient then ModeClient else ModeServer)"
    by (simp add: lan_options_dhtOpts wan_options_dhtOpts configured_mode_def
        split: option.splits)
  from direct wan lan wan_mode lan_mode show ?thesis by blast
qed

section \<open>The stream multiplexer\<close>

text \<open>
  Claim C7 as stated says that exactly one stream-multiplexer option is attached in every
  call. A caller who passes a multiplexer option of their own among the extra options has
  two of them passed to host construction.
\<close>

theorem SetupLibp2p_two_muxers:
  "length (filter is_Muxer (applied
     (finalOpts sample_extern (Context 0) (PrivKey 0) None [] None 0
        [Muxer ''/mplex/6.7.0'' (OtherMultiplexer ''mplex'')]))) = 2"
  by (simp add: finalOpts_def mandatoryOpts_def transports_def applied_def)

text \<open>
  Claim C7, amended. SetupLibp2p adds exactly one stream-multiplexer option of its own,
  as the last option, after any multiplexer options among the caller's extra options: the
  yamux transport under "/yamux/1.0.0" with a stream window of 4 MiB, an accept backlog of
  128, keep-alive enabled with an interval of 15 seconds and a maximum message size of
  16 MiB. These values depend on no argument of the call; the fields that SetupLibp2p does
  not assign keep the library's defaults.
\<close>

theorem SetupLibp2p_yamux_profile:
  "filter is_Muxer (applied (finalOpts L ctx k secret la ds m opts)) =
     filter is_Muxer (applied opts) @
     [Muxer ''/yamux/1.0.0'' (yamux_Transport (yamuxConfig L))] \<and>
   last (finalOpts L ctx k secret la ds m opts) =
     Muxer ''/yamux/1.0.0'' (yamux_Transport (yamuxConfig L)) \<and>
   MaxStreamWindowSize (yamuxConfig L) = 4 * 2 ^ 20 \<and>
   AcceptBacklog (yamuxConfig L) = 128 \<and>
   EnableKeepAlive (yamuxConfig L) = True \<and>
   KeepAliveInterval (yamuxConfig L) = 15 * 10 ^ 9 \<and>
   MaxMessageSize (yamuxConfig L) = 16 * 2 ^ 20 \<and>
   LogOutput (yamuxConfig L) = io_Discard \<and>
   yamux_Config.more (yamuxConfig L) = yamux_Config.more (yamux_DefaultConfig L)"
  by (simp add: finalOpts_def mandatoryOpts_def transports_def applied_append applied_Cons
      applied_Nil yamuxConfig_def time_Second_def)

section \<open>The connection manager\<close>

text \<open>
  Claim C8 as stated says that every successful assembly attaches the connection manager
  \<open>connMgr\<close>, whatever the extra options. A call without extra options succeeds with
  libraries that accept the options, and no connection-manager option is passed to host
  construction.
\<close>

theorem SetupLibp2p_without_connMgr:
  "SetupLibp2p sample_extern (Context 0) (PrivKey 0) None [] None 0 [] =
     (Some (Host 1), Some (DHT 1), None) \<and>
   filter is_ConnectionManager (applied
     (finalOpts sample_extern (Context 0) (PrivKey 0) None [] None 0 [])) = []"
  by (simp add: SetupLibp2p_def sample_extern_def captured_def newDHT_def finalOpts_def
      mandatoryOpts_def transports_def applied_def)

text \<open>
  Claim C8, amended. The connection manager \<open>connMgr\<close> is built once, with low watermark
  100, high watermark 600 and a grace period of one minute. SetupLibp2p adds no
  connection-manager option of its own: the connection-manager options passed to host
  construction are those among the caller's extra options, and \<open>Libp2pOptionsExtra\<close>
  holds exactly one, for \<open>connMgr\<close>.
\<close>

theorem connMgr_attached_by_caller:
  "filter is_ConnectionManager (applied (finalOpts L ctx k secret la ds m opts)) =
     filter is_ConnectionManager (applied opts) \<and>
   filter is_ConnectionManager (applied (Libp2pOptionsExtra L)) =
     [ConnectionManager connMgr] \<and>
   connMgr = connmgr_NewConnManager 100 600 [connmgr_WithGracePeriod (60 * 10 ^ 9)]"
  by (simp add: finalOpts_def mandatoryOpts_def transports_def applied_append applied_Cons
      applied_Nil Libp2pOptionsExtra_def connMgr_def time_Minute_def time_Second_def)

section \<open>The default bootstrap peers\<close>

lemma DefaultBootstrapPeers_with_iteration:
  "DefaultBootstrapPeers (with_iteration L split iter) =
     (case group_addrs split (dht_DefaultBootstrapPeers L) [] of
        None \<Rightarrow> []
      | Some m \<Rightarrow> map (\<lambda>(pid, as). \<lparr>ID = pid, Addrs = as\<rparr>) (iter m))"
  by (simp add: DefaultBootstrapPeers_def with_iteration_def AddrInfosFromP2pAddrs_def
      split: option.splits)

lemma group_two_peers:
  "group_addrs two_peers_split two_peers [] =
     Some [(''QmNnooDu7bfjPFoTZYxMNLWUQJyrVwtbZg5gBMjTezGAJN'',
            [''/dnsaddr/bootstrap.libp2p.io'']),
           (''QmaCpDMGvV2BGHeYERUEnRQAwe3N8SzbUtfsmvsqQLuvuJ'',
            [''/ip4/104.131.131.82/tcp/4001''])]"
  by (simp add: two_peers_def two_peers_split_def)

text \<open>
  Claim C9 as stated says that two calls return the same sequence of peer records. Two
  calls on the same two default addresses, one whose parser meets the entries of its map
  in one order and one whose parser meets them in the other, return the two records in
  different orders.
\<close>

theorem DefaultBootstrapPeers_order_differs:
  "dht_DefaultBootstrapPeers (with_iteration two_peers_extern two_peers_split id) =
     dht_DefaultBootstrapPeers (with_iteration two_peers_extern two_peers_split rev) \<and>
   DefaultBootstrapPeers (with_iteration two_peers_extern two_peers_split id) =
     [\<lparr>ID = ''QmNnooDu7bfjPFoTZYxMNLWUQJyrVwtbZg5gBMjTezGAJN'',
       Addrs = [''/dnsaddr/bootstrap.libp2p.io'']\<rparr>,
      \<lparr>ID = ''QmaCpDMGvV2BGHeYERUEnRQAwe3N8SzbUtfsmvsqQLuvuJ'',
       Addrs = [''/ip4/104.131.131.82/tcp/4001'']\<rparr>] \<and>
   DefaultBootstrapPeers (with_iteration two_peers_extern two_peers_split rev) =
     [\<lparr>ID = ''QmaCpDMGvV2BGHeYERUEnRQAwe3N8SzbUtfsmvsqQLuvuJ'',
       Addrs = [''/ip4/104.131.131.82/tcp/4001'']\<rparr>,
      \<lparr>ID = ''QmNnooDu7bfjPFoTZYxMNLWUQJyrVwtbZg5gBMjTezGAJN'',
       Addrs = [''/dnsaddr/bootstrap.libp2p.io'']\<rparr>] \<and>
   DefaultBootstrapPeers (with_iteration two_peers_extern two_peers_split id) \<noteq>
     DefaultBootstrapPeers (with_iteration two_peers_extern two_peers_split rev)"
proof -
  have addrs: "dht_DefaultBootstrapPeers two_peers_extern = two_peers"
    by (simp add: two_peers_extern_def)
  have same: "dht_DefaultBootstrapPeers (with_iteration two_peers_extern two_peers_split id) =
     dht_DefaultBootstrapPeers (with_iteration two_peers_extern two_peers_split rev)"
    by (simp add: with_iteration_def)
  have first: "DefaultBootstrapPeers (with_iteration two_peers_extern two_peers_split id) =
     [\<lparr>ID = ''QmNnooDu7bfjPFoTZYxMNLWUQJyrVwtbZg5gBMjTezGAJN'',
       Addrs = [''/dnsaddr/bootstrap.libp2p.io'']\<rparr>,
      \<lparr>ID = ''QmaCpDMGvV2BGHeYERUEnRQAwe3N8SzbUtfsmvsqQLuvuJ'',
       Addrs = [''/ip4/104.131.131.82/tcp/4001'']\<rparr>]"
    by (simp add: DefaultBootstrapPeers_with_iteration addrs group_two_peers)
  have second: "DefaultBootstrapPeers (with_iteration two_peers_extern two_peers_split rev) =
     [\<lparr>ID = ''QmaCpDMGvV2BGHeYERUEnRQAwe3N8SzbUtfsmvsqQLuvuJ'',
       Addrs = [''/ip4/104.131.131.82/tcp/4001'']\<rparr>,
      \<lparr>ID = ''QmNnooDu7bfjPFoTZYxMNLWUQJyrVwtbZg5gBMjTezGAJN'',
       Addrs = [''/dnsaddr/bootstrap.libp2p.io'']\<rparr>]"
    by (simp add: DefaultBootstrapPeers_with_iteration addrs group_two_peers)
  have differ: "DefaultBootstrapPeers (with_iteration two_peers_extern two_peers_split id) \<noteq>
     DefaultBootstrapPeers (with_iteration two_peers_extern two_peers_split rev)"
    unfolding first second by simp
  from same first second differ show ?thesis by blast
qed

text \<open>
  Claim C9, amended. Two calls on the same default bootstrap addresses, each of whose
  parsers meets every entry of its map once, return the same peer records with the same
  multiplicities: one record for each peer ID with the transport parts of its addresses,
  and none when an address has no peer ID. The order of the records is the order in which
  the parser of the call ranges over its map, and may differ between the calls.
\<close>

theorem DefaultBootstrapPeers_same_peers:
  assumes "\<forall>m. mset (iter1 m) = mset m" and "\<forall>m. mset (iter2 m) = mset m"
  shows "mset (DefaultBootstrapPeers (with_iteration L split iter1)) =
           mset (DefaultBootstrapPeers (with_iteration L split iter2)) \<and>
         mset (DefaultBootstrapPeers (with_iteration L split iter1)) =
           (case group_addrs split (dht_DefaultBootstrapPeers L) [] of
              None \<Rightarrow> {#}
            | Some m \<Rightarrow> image_mset (\<lambda>(pid, as). \<lparr>ID = pid, Addrs = as\<rparr>) (mset m))"
proof (cases "group_addrs split (dht_DefaultBootstrapPeers L) []")
  case None
  then show ?thesis
    by (simp add: DefaultBootstrapPeers_with_iteration)
next
  case (Some m)
  have one: "mset (map (\<lambda>(pid, as). \<lparr>ID = pid, Addrs = as\<rparr>) (iter1 m)) =
      image_mset (\<lambda>(pid, as). \<lparr>ID = pid, Addrs = as\<rparr>) (mset m)"
    using assms(1) by (metis mset_map)
  have two: "mset (map (\<lambda>(pid, as). \<lparr>ID = pid, Addrs = as\<rparr>) (iter2 m)) =
      image_mset (\<lambda>(pid, as). \<lparr>ID = pid, Addrs = as\<rparr>) (mset m)"
    using assms(2) by (metis mset_map)
  from Some one two show ?thesis
    by (simp add: DefaultBootstrapPeers_with_iteration)
qed

theorem DefaultBootstrapPeers_same_peers_witness:
  "(\<forall>m::(string \<times> Multiaddr list) list. mset (id m) = mset m) \<and>
   (\<forall>m::(string \<times> Multiaddr list) list. mset (rev m) = mset m) \<and>
   mset (DefaultBootstrapPeers (with_iteration two_peers_extern two_peers_split id)) =
     mset (DefaultBootstrapPeers (with_iteration two_peers_extern two_peers_split rev))"
proof -
  have first: "\<forall>m::(string \<times> Multiaddr list) list. mset (id m) = mset m"
    by simp
  have second: "\<forall>m::(string \<times> Multiaddr list) list. mset (rev m) = mset m"
    by simp
  have same: "mset (DefaultBootstrapPeers (with_iteration two_peers_extern two_peers_split id)) =
     mset (DefaultBootstrapPeers (with_iteration two_peers_extern two_peers_split rev))"
    by (rule DefaultBootstrapPeers_same_peers [OF first second, THEN conjunct1])
  from first second same show ?thesis by blast
qed

text \<open>
  Claim C10. DefaultBootstrapPeers has no error result: whatever pair of peers and error
  the address parser returns on the default bootstrap addresses, the function returns the
  peers of that pair and drops the error.
\<close>

theorem DefaultBootstrapPeers_discards_error:
  "peer_AddrInfosFromP2pAddrs L (dht_DefaultBootstrapPeers L) = (peers, e) \<Longrightarrow>
   DefaultBootstrapPeers L = peers"
  by (simp add: DefaultBootstrapPeers_def)

theorem DefaultBootstrapPeers_discards_error_witness:
  "peer_AddrInfosFromP2pAddrs sample_extern (dht_DefaultBootstrapPeers sample_extern) =
     ([], Some (Error ''invalid p2p multiaddr'')) \<and>
   DefaultBootstrapPeers sample_extern = []"
proof -
  have parse:
    "peer_AddrInfosFromP2pAddrs sample_extern (dht_DefaultBootstrapPeers sample_extern) =
       ([], Some (Error ''invalid p2p multiaddr''))"
    by (simp add: sample_extern_def)
  show ?thesis
    using parse DefaultBootstrapPeers_discards_error [OF parse] by simp
qed

end
